theory Spec2Isabelle
  imports Complex_Main "HOL-Library.Sublist" "HOL-Library.Multiset" "HOL-Library.Log_Nat"
begin

section \<open>The merge-conflicts dialog of app/src/ui/merge-conflicts/merge-conflicts-dialog.tsx\<close>

text \<open>
  The component \<^verbatim>\<open>MergeConflictsDialog\<close> is a React class component without state
  of its own (its state type is \<^verbatim>\<open>{}\<close>): every method reads \<^verbatim>\<open>this.props\<close> at the
  moment it runs. The embedding keeps that shape. A component instance is a record with
  the one field \<open>props\<close>; each method is a function of \<open>this\<close>; the calls a method
  makes on its collaborators (the dispatcher and the callbacks handed in as props) are
  recorded, in program order, as a list of events.
\<close>

subsection \<open>Data\<close>

text \<open>
  Modelled from the spec: the enum \<^verbatim>\<open>AppFileStatus\<close> is declared in models/status, which
  is not among the sources. The dialog compares a status with \<^verbatim>\<open>Conflicted\<close> and
  \<^verbatim>\<open>Resolved\<close> only; the spec names these two "plus other non-merge statuses", which
  are kept apart by an index.
\<close>

datatype AppFileStatus = Conflicted | Resolved | OtherStatus nat

text \<open>
  Modelled from the spec: \<^verbatim>\<open>WorkingDirectoryFileChange\<close> (models/status) with the three
  fields the dialog reads, \<^verbatim>\<open>file.path\<close>, \<^verbatim>\<open>file.status\<close> and
  \<^verbatim>\<open>file.conflictMarkers\<close>. The marker count is a JavaScript number holding an integer.
\<close>

record WorkingDirectoryFileChange =
  path :: string
  status :: AppFileStatus
  conflictMarkers :: int

text \<open>Modelled from the spec: \<^verbatim>\<open>WorkingDirectoryStatus\<close>, of which the dialog reads \<^verbatim>\<open>files\<close>.\<close>

record WorkingDirectoryStatus =
  files :: "WorkingDirectoryFileChange list"

text \<open>Modelled from the spec: \<^verbatim>\<open>Repository\<close>, of which the dialog reads \<^verbatim>\<open>path\<close>.\<close>

record Repository =
  path :: string

text \<open>
  Modelled from the spec: the enums \<^verbatim>\<open>RepositorySectionTab\<close> and \<^verbatim>\<open>PopupType\<close> of
  lib/app-state; the dialog uses the members \<^verbatim>\<open>Changes\<close> and \<^verbatim>\<open>AbortMerge\<close>.
\<close>

datatype RepositorySectionTab = Changes | OtherSection nat

datatype PopupType = AbortMerge | OtherPopup nat

text \<open>The object literal handed to \<^verbatim>\<open>dispatcher.showPopup\<close>.\<close>

datatype Popup =
  Popup (popup_type: PopupType) (popup_repository: Repository)
        (popup_currentBranch: string) (popup_comparisonBranch: string)

text \<open>
  \<^verbatim>\<open>IMergeConflictsDialogProps\<close>. The data fields are fields of the record. The
  collaborators among the props (\<^verbatim>\<open>dispatcher\<close>, \<^verbatim>\<open>onDismissed\<close>,
  \<^verbatim>\<open>openFileInExternalEditor\<close>, \<^verbatim>\<open>openRepositoryInShell\<close>) are not data: a call to one of
  them is an event of the trace.
\<close>

record IMergeConflictsDialogProps =
  repository :: Repository
  status :: WorkingDirectoryStatus
  externalEditorName :: "string option"
  currentBranch :: string
  comparisonBranch :: string

record MergeConflictsDialog =
  props :: IMergeConflictsDialogProps

subsection \<open>Effects\<close>

text \<open>
  The calls the component makes on its collaborators, with their arguments.
  \<^verbatim>\<open>openFileInExternalEditor\<close> receives \<^verbatim>\<open>join(repositoryPath, file.path)\<close>; the
  library function \<^verbatim>\<open>join\<close> is not evaluated, the call keeps its two segments.
\<close>

datatype Call =
    Dispatcher_createMergeCommit Repository "WorkingDirectoryFileChange list"
  | Dispatcher_changeRepositorySection Repository RepositorySectionTab
  | Dispatcher_abortMerge Repository
  | Dispatcher_showPopup Popup
  | Props_onDismissed
  | Props_openFileInExternalEditor string string
  | Props_openRepositoryInShell Repository

text \<open>
  The promise returned by an awaited call settles in one of two ways. How it settles is
  decided by the dispatcher, which is not among the sources, so it is a parameter of
  every asynchronous method.
\<close>

datatype PromiseState = Fulfilled | Rejected

text \<open>
  An event is a call, or the moment an awaited promise settles and the method resumes
  (or is left, when the promise is rejected).
\<close>

datatype Event = Called Call | Settled Call PromiseState

type_synonym Outcome = "Event list \<times> PromiseState"

text \<open>
  \<^verbatim>\<open>await c; rest\<close> inside an async function: the call is made, the function is
  suspended until the promise settles; when it is fulfilled the rest runs, when it is
  rejected the exception leaves the function (nobody catches it here), the rest does
  not run and the function's own promise is rejected.
\<close>

definition await :: "Call \<Rightarrow> PromiseState \<Rightarrow> Outcome \<Rightarrow> Outcome" where
  "await c settles rest =
     (case settles of
        Rejected \<Rightarrow> ([Called c, Settled c Rejected], Rejected)
      | Fulfilled \<Rightarrow> (Called c # Settled c Fulfilled # fst rest, snd rest))"

subsection \<open>The event handlers\<close>

text \<open>\<^verbatim>\<open>getUnmergedFiles\<close>: \<^verbatim>\<open>Array.prototype.filter\<close> is \<^const>\<open>filter\<close>.\<close>

definition getUnmergedFiles :: "MergeConflictsDialog \<Rightarrow> WorkingDirectoryFileChange list" where
  "getUnmergedFiles this =
     filter
       (\<lambda>file. WorkingDirectoryFileChange.status file = Conflicted \<or>
               WorkingDirectoryFileChange.status file = Resolved)
       (files (status (props this)))"

text \<open>\<^verbatim>\<open>onSubmit\<close>; the parameter says how the promise of \<^verbatim>\<open>createMergeCommit\<close> settles.\<close>

definition onSubmit :: "MergeConflictsDialog \<Rightarrow> PromiseState \<Rightarrow> Outcome" where
  "onSubmit this createMergeCommit_settles =
     await
       (Dispatcher_createMergeCommit (repository (props this)) (files (status (props this))))
       createMergeCommit_settles
       ([Called (Dispatcher_changeRepositorySection (repository (props this)) Changes),
         Called Props_onDismissed],
        Fulfilled)"

text \<open>
  \<^verbatim>\<open>onCancel\<close>; the parameter says how the promise of \<^verbatim>\<open>abortMerge\<close> settles.
  \<^verbatim>\<open>Array.prototype.some\<close> is \<^const>\<open>list_ex\<close>.
\<close>

definition onCancel :: "MergeConflictsDialog \<Rightarrow> PromiseState \<Rightarrow> Outcome" where
  "onCancel this abortMerge_settles =
     (let anyResolvedFiles =
            list_ex (\<lambda>f. WorkingDirectoryFileChange.status f = Resolved) (getUnmergedFiles this)
      in if \<not> anyResolvedFiles then
           await (Dispatcher_abortMerge (repository (props this))) abortMerge_settles
             ([Called Props_onDismissed], Fulfilled)
         else
           ([Called Props_onDismissed,
             Called (Dispatcher_showPopup
               (Popup AbortMerge (repository (props this))
                  (currentBranch (props this)) (comparisonBranch (props this))))],
            Fulfilled))"

text \<open>\<^verbatim>\<open>openThisRepositoryInShell\<close>.\<close>

definition openThisRepositoryInShell :: "MergeConflictsDialog \<Rightarrow> Outcome" where
  "openThisRepositoryInShell this =
     ([Called (Props_openRepositoryInShell (repository (props this)))], Fulfilled)"

subsection \<open>Formatting\<close>

text \<open>
  A JavaScript number is an IEEE 754 double (binary64), and \<^verbatim>\<open>a / b\<close> is the exact
  quotient rounded to the nearest double, ties to the even significand. The values of
  finite doubles are rational numbers, so the model computes with \<^typ>\<open>rat\<close>.
\<close>

text \<open>Rounding to the nearest integer, a tie to the even one.\<close>

definition roundHalfEven :: "rat \<Rightarrow> int" where
  "roundHalfEven y =
     (let f = \<lfloor>y\<rfloor>; d = y - of_int f
      in if d < 1 / 2 then f
         else if 1 / 2 < d then f + 1
         else if even f then f else f + 1)"

definition pow2 :: "int \<Rightarrow> rat" where
  "pow2 e = (if 0 \<le> e then 2 ^ nat e else 1 / 2 ^ nat (- e))"

text \<open>
  The exponent of the binade of a positive number \<open>a\<close>: the \<open>e\<close> with
  \<open>2 ^ e \<le> a < 2 ^ (e + 1)\<close>, and \<open>- 1022\<close> (the subnormal range) for every smaller
  number.
\<close>

definition exponent :: "rat \<Rightarrow> int" where
  "exponent a =
     (if 1 \<le> a then bitlen \<lfloor>a\<rfloor> - 1
      else case find (\<lambda>k. 1 \<le> a * 2 ^ k) [1..<1023] of
             Some k \<Rightarrow> - int k
           | None \<Rightarrow> - 1022)"

text \<open>
  The double nearest to \<open>x\<close>: doubles in the binade of exponent \<open>e\<close> are the multiples
  of \<open>2 ^ (e - 52)\<close> (a significand of 53 bits). Overflow to infinity is left out: the
  quotient of a finite double by 3 is smaller than the double.
\<close>

definition toDouble :: "rat \<Rightarrow> rat" where
  "toDouble x =
     (if x = 0 then 0
      else let a = \<bar>x\<bar>; ulp = pow2 (exponent a - 52)
           in sgn x * (of_int (roundHalfEven (a / ulp)) * ulp))"

text \<open>
  \<^verbatim>\<open>calculateConflicts\<close>: \<^verbatim>\<open>Math.ceil(conflictMarkers / 3)\<close>. The argument is the
  integer the number \<^verbatim>\<open>conflictMarkers\<close> holds; the division rounds to a double;
  \<^verbatim>\<open>Math.ceil\<close> of a double is exact.
\<close>

definition calculateConflicts :: "int \<Rightarrow> int" where
  "calculateConflicts markers = \<lceil>toDouble (of_int markers / 3)\<rceil>"

text \<open>
  A template literal \<^verbatim>\<open>${n}\<close> with an integer \<^verbatim>\<open>n\<close> prints its decimal digits, with a
  minus sign in front when it is negative. (From \<open>10 ^ 21\<close> on JavaScript prints a number
  in exponent notation; \<^verbatim>\<open>toString\<close> below is the conversion for smaller magnitudes.)
\<close>

fun decimal :: "nat \<Rightarrow> string" where
  "decimal n =
     (if n < 10 then [''0123456789'' ! n]
      else decimal (n div 10) @ [''0123456789'' ! (n mod 10)])"

declare decimal.simps [simp del]

text \<open>Reading decimal digits back, to say what \<^const>\<open>decimal\<close> prints.\<close>

definition readDecimal :: "string \<Rightarrow> nat" where
  "readDecimal ds = foldl (\<lambda>a c. 10 * a + (of_char c - 48)) 0 ds"

definition toString :: "int \<Rightarrow> string" where
  "toString i = (if i < 0 then CHR ''-'' # decimal (nat (- i)) else decimal (nat i))"

text \<open>\<^verbatim>\<open>titleString\<close>.\<close>

definition titleString :: "string \<Rightarrow> string \<Rightarrow> string" where
  "titleString currentBranchName comparisonBranchName =
     ''Resolve conflicts before merging '' @ comparisonBranchName @ '' into '' @ currentBranchName"

text \<open>
  \<^verbatim>\<open>editorButtonString\<close>: \<^verbatim>\<open>editorName || defaultEditorString\<close> takes the default
  when the name is undefined and when it is the empty string.
\<close>

definition editorButtonString :: "string option \<Rightarrow> string" where
  "editorButtonString editorName =
     (let defaultEditorString = ''editor''
      in ''Open in '' @
         (case editorName of
            None \<Rightarrow> defaultEditorString
          | Some name \<Rightarrow> if name = [] then defaultEditorString else name))"

text \<open>
  \<^verbatim>\<open>renderUnmergedFilesSummary\<close>; its argument is \<^verbatim>\<open>unmergedFiles.length\<close>, a
  natural number. Of the \<^verbatim>\<open>h3\<close> element the text is kept.
\<close>

definition renderUnmergedFilesSummary :: "nat \<Rightarrow> string" where
  "renderUnmergedFilesSummary unmergedFiles =
     (if unmergedFiles = 1 then ''1 conflicted file''
      else decimal unmergedFiles @ '' conflicted files'')"

subsection \<open>Rendering\<close>

text \<open>
  The functions an element of the rendered tree can carry as a click or dialog handler.
  The editor handler is the closure over the repository path and the file's path.
\<close>

datatype Handler =
    Handler_onSubmit
  | Handler_onCancel
  | Handler_openThisRepositoryInShell
  | Handler_openFileInExternalEditor string string

text \<open>
  A list item of the file list: a resolved file shows its path; a conflicted file shows
  its path, the conflict message, and a button with a label and a click handler.
\<close>

datatype FileItem =
    ResolvedFileItem string
  | ConflictedFileItem string string string Handler

text \<open>\<^verbatim>\<open>renderResolvedFile\<close>.\<close>

definition renderResolvedFile :: "string \<Rightarrow> FileItem" where
  "renderResolvedFile p = ResolvedFileItem p"

text \<open>\<^verbatim>\<open>renderConflictedFile\<close>.\<close>

definition renderConflictedFile ::
  "string \<Rightarrow> int \<Rightarrow> string option \<Rightarrow> Handler \<Rightarrow> FileItem" where
  "renderConflictedFile p conflicts editorName onOpenEditorClick =
     (let humanReadableConflicts = calculateConflicts conflicts;
          message =
            (if humanReadableConflicts = 1 then ''1 conflict''
             else toString humanReadableConflicts @ '' conflicts'')
      in ConflictedFileItem p message (editorButtonString editorName) onOpenEditorClick)"

text \<open>\<^verbatim>\<open>renderUnmergedFile\<close>: the \<^verbatim>\<open>switch\<close> on the status; \<^verbatim>\<open>null\<close> is \<^const>\<open>None\<close>.\<close>

definition renderUnmergedFile ::
  "WorkingDirectoryFileChange \<Rightarrow> string option \<Rightarrow> string \<Rightarrow> FileItem option" where
  "renderUnmergedFile file editorName repositoryPath =
     (case WorkingDirectoryFileChange.status file of
        Resolved \<Rightarrow> Some (renderResolvedFile (WorkingDirectoryFileChange.path file))
      | Conflicted \<Rightarrow>
          Some (renderConflictedFile (WorkingDirectoryFileChange.path file)
                  (conflictMarkers file) editorName
                  (Handler_openFileInExternalEditor repositoryPath
                     (WorkingDirectoryFileChange.path file)))
      | OtherStatus _ \<Rightarrow> None)"

text \<open>\<^verbatim>\<open>renderUnmergedFiles\<close>: \<^verbatim>\<open>Array.prototype.map\<close> is \<^const>\<open>map\<close>.\<close>

definition renderUnmergedFiles ::
  "WorkingDirectoryFileChange list \<Rightarrow> string option \<Rightarrow> string \<Rightarrow> FileItem option list" where
  "renderUnmergedFiles fs editorName repositoryPath =
     map (\<lambda>f. renderUnmergedFile f editorName repositoryPath) fs"

text \<open>
  What \<^verbatim>\<open>render\<close> returns: the attributes of the \<^verbatim>\<open>Dialog\<close> element, the content,
  and the attributes of the two buttons of the footer.
\<close>

record MergeConflictsView =
  dialog_id :: string
  dialog_title :: string
  dialog_dismissable :: bool
  dialog_onDismissed :: Handler
  dialog_onSubmit :: Handler
  content_summary :: string
  content_files :: "FileItem option list"
  content_shellLink :: Handler
  submit_disabled :: bool
  submit_tooltip :: "string option"
  submit_label :: string
  cancel_onClick :: Handler
  cancel_label :: string

definition submitButtonString :: string where
  "submitButtonString = ''Commit merge''"

definition cancelButtonString :: string where
  "cancelButtonString = ''Abort merge''"

text \<open>\<^verbatim>\<open>render\<close>.\<close>

definition render :: "MergeConflictsDialog \<Rightarrow> MergeConflictsView" where
  "render this =
     (let unmergedFiles = getUnmergedFiles this;
          anyConflictedFiles =
            list_ex (\<lambda>f. WorkingDirectoryFileChange.status f = Conflicted) unmergedFiles;
          title = titleString (currentBranch (props this)) (comparisonBranch (props this));
          tooltipString =
            (if anyConflictedFiles then Some ''Resolve all changes before merging'' else None)
      in \<lparr> dialog_id = ''merge-conflicts-list'',
           dialog_title = title,
           dialog_dismissable = False,
           dialog_onDismissed = Handler_onCancel,
           dialog_onSubmit = Handler_onSubmit,
           content_summary = renderUnmergedFilesSummary (length unmergedFiles),
           content_files =
             renderUnmergedFiles unmergedFiles (externalEditorName (props this))
               (Repository.path (repository (props this))),
           content_shellLink = Handler_openThisRepositoryInShell,
           submit_disabled = anyConflictedFiles,
           submit_tooltip = tooltipString,
           submit_label = submitButtonString,
           cancel_onClick = Handler_onCancel,
           cancel_label = cancelButtonString \<rparr>)"

text \<open>
  Running a handler of the rendered tree on the component. The parameter says how the
  promise the handler awaits, if it awaits one, settles.
\<close>

fun fire :: "MergeConflictsDialog \<Rightarrow> Handler \<Rightarrow> PromiseState \<Rightarrow> Outcome" where
  "fire this Handler_onSubmit settles = onSubmit this settles"
| "fire this Handler_onCancel settles = onCancel this settles"
| "fire this Handler_openThisRepositoryInShell settles = openThisRepositoryInShell this"
| "fire this (Handler_openFileInExternalEditor repositoryPath filePath) settles =
     ([Called (Props_openFileInExternalEditor repositoryPath filePath)], Fulfilled)"

subsection \<open>The Dialog element\<close>

text \<open>
  Modelled from the spec: the \<^verbatim>\<open>Dialog\<close> component (ui/dialog) is not among the
  sources. A generic dismiss action is any way of closing the dialog other than the two
  buttons of its footer. The spec lets such an action trigger no operation of the
  merge, and \<^verbatim>\<open>render\<close> passes \<^verbatim>\<open>dismissable={false}\<close> next to the \<^verbatim>\<open>onDismissed\<close>
  handler: the component hands a generic dismiss action to the \<^verbatim>\<open>onDismissed\<close> handler
  of a dismissable element, and does nothing on an element that is not dismissable.
\<close>

definition genericDismiss :: "MergeConflictsDialog \<Rightarrow> PromiseState \<Rightarrow> Outcome" where
  "genericDismiss this settles =
     (let dialog = render this
      in if dialog_dismissable dialog then fire this (dialog_onDismissed dialog) settles
         else ([], Fulfilled))"

subsection \<open>The component under React\<close>

text \<open>
  React builds the component from its first props and, whenever the parent renders again,
  replaces \<^verbatim>\<open>this.props\<close> by the new props. The class declares no field and no state
  besides: nothing else of an instance changes between two events.
\<close>

definition mount :: "IMergeConflictsDialogProps \<Rightarrow> MergeConflictsDialog" where
  "mount p = \<lparr> props = p \<rparr>"

definition receiveProps ::
  "MergeConflictsDialog \<Rightarrow> IMergeConflictsDialogProps \<Rightarrow> MergeConflictsDialog" where
  "receiveProps this p = this\<lparr> props := p \<rparr>"

text \<open>The instance after the dialog was opened with \<open>p\<close> and was handed \<open>ps\<close>, one by one.\<close>

definition afterUpdates ::
  "IMergeConflictsDialogProps \<Rightarrow> IMergeConflictsDialogProps list \<Rightarrow> MergeConflictsDialog" where
  "afterUpdates p ps = foldl receiveProps (mount p) ps"

subsection \<open>Reading a trace\<close>

text \<open>The calls of a trace, in order.\<close>

fun calls :: "Event list \<Rightarrow> Call list" where
  "calls [] = []"
| "calls (Called c # es) = c # calls es"
| "calls (Settled c s # es) = calls es"

text \<open>The file lists handed to \<^verbatim>\<open>createMergeCommit\<close> in a trace, one per call.\<close>

fun createMergeCommit_files :: "Event list \<Rightarrow> WorkingDirectoryFileChange list list" where
  "createMergeCommit_files [] = []"
| "createMergeCommit_files (Called (Dispatcher_createMergeCommit r fs) # es) =
     fs # createMergeCommit_files es"
| "createMergeCommit_files (e # es) = createMergeCommit_files es"

text \<open>
  The branch a run of \<^verbatim>\<open>onCancel\<close> took, read off its trace: it called
  \<^verbatim>\<open>abortMerge\<close>, or it asked for the abort-merge popup, or neither.
\<close>

datatype CancelBranch = DirectAbort | ConfirmationDetour

fun is_abortMerge :: "Call \<Rightarrow> bool" where
  "is_abortMerge (Dispatcher_abortMerge r) = True"
| "is_abortMerge c = False"

fun is_showPopup :: "Call \<Rightarrow> bool" where
  "is_showPopup (Dispatcher_showPopup p) = True"
| "is_showPopup c = False"

definition cancelBranch :: "Event list \<Rightarrow> CancelBranch option" where
  "cancelBranch tr =
     (if list_ex is_abortMerge (calls tr) then Some DirectAbort
      else if list_ex is_showPopup (calls tr) then Some ConfirmationDetour
      else None)"

subsection \<open>The scenarios of the specification\<close>

definition file_a :: WorkingDirectoryFileChange where
  "file_a = \<lparr> WorkingDirectoryFileChange.path = ''a.txt'', status = Conflicted,
               conflictMarkers = 3 \<rparr>"

definition file_b :: WorkingDirectoryFileChange where
  "file_b = \<lparr> WorkingDirectoryFileChange.path = ''b.txt'', status = Resolved,
               conflictMarkers = 0 \<rparr>"

definition file_c :: WorkingDirectoryFileChange where
  "file_c = \<lparr> WorkingDirectoryFileChange.path = ''c.txt'', status = OtherStatus 0,
               conflictMarkers = 0 \<rparr>"

definition repo :: Repository where
  "repo = \<lparr> Repository.path = ''/home/user/project'' \<rparr>"

definition propsWith :: "WorkingDirectoryFileChange list \<Rightarrow> IMergeConflictsDialogProps" where
  "propsWith fs =
     \<lparr> repository = repo, status = \<lparr> files = fs \<rparr>, externalEditorName = None,
       currentBranch = ''master'', comparisonBranch = ''feature'' \<rparr>"

definition dialogWith :: "WorkingDirectoryFileChange list \<Rightarrow> MergeConflictsDialog" where
  "dialogWith fs = mount (propsWith fs)"

section \<open>Properties\<close>

lemmas scenario_defs =
  dialogWith_def propsWith_def mount_def repo_def file_a_def file_b_def file_c_def

text \<open>
  C1. The submit button is rendered with \<^verbatim>\<open>disabled={anyConflictedFiles}\<close>: for every
  list of unmerged files the commit action is enabled (not disabled) if and only if no
  file in the list has the status \<^verbatim>\<open>Conflicted\<close>.
\<close>

theorem commit_enabled_iff_no_conflicted:
  "(\<not> submit_disabled (render this)) =
     (\<forall>f \<in> set (getUnmergedFiles this). WorkingDirectoryFileChange.status f \<noteq> Conflicted)"
  by (simp add: render_def Let_def list_ex_iff)

theorem commit_enabled_iff_no_conflicted_witness:
  "\<not> submit_disabled (render (dialogWith [file_b, file_c]))
   \<and> submit_disabled (render (dialogWith [file_a, file_b]))
   \<and> getUnmergedFiles (dialogWith [file_b, file_c]) = [file_b]"
  using commit_enabled_iff_no_conflicted [of "dialogWith [file_b, file_c]"]
    commit_enabled_iff_no_conflicted [of "dialogWith [file_a, file_b]"]
  by (simp add: getUnmergedFiles_def scenario_defs)

text \<open>
  C2. When no unmerged file has the status \<^verbatim>\<open>Resolved\<close>, \<^verbatim>\<open>onCancel\<close> calls
  \<^verbatim>\<open>abortMerge\<close> first and, once that promise is fulfilled, dismisses the dialog; it
  never asks for the abort-merge popup. (When the promise is rejected the rejection
  leaves the handler after the call, as the second conjunct records.)
\<close>

theorem onCancel_without_resolved:
  assumes "\<forall>f \<in> set (getUnmergedFiles this). WorkingDirectoryFileChange.status f \<noteq> Resolved"
  shows "onCancel this Fulfilled =
           ([Called (Dispatcher_abortMerge (repository (props this))),
             Settled (Dispatcher_abortMerge (repository (props this))) Fulfilled,
             Called Props_onDismissed], Fulfilled)
         \<and> onCancel this Rejected =
           ([Called (Dispatcher_abortMerge (repository (props this))),
             Settled (Dispatcher_abortMerge (repository (props this))) Rejected], Rejected)
         \<and> (\<forall>settles p. Called (Dispatcher_showPopup p) \<notin> set (fst (onCancel this settles)))"
proof -
  have n: "\<not> list_ex (\<lambda>f. WorkingDirectoryFileChange.status f = Resolved) (getUnmergedFiles this)"
    using assms by (simp add: list_ex_iff)
  have "\<And>settles p. Called (Dispatcher_showPopup p) \<notin> set (fst (onCancel this settles))"
    using n by (simp add: onCancel_def await_def split: PromiseState.split)
  moreover have "onCancel this Fulfilled =
           ([Called (Dispatcher_abortMerge (repository (props this))),
             Settled (Dispatcher_abortMerge (repository (props this))) Fulfilled,
             Called Props_onDismissed], Fulfilled)"
    using n by (simp add: onCancel_def await_def)
  moreover have "onCancel this Rejected =
           ([Called (Dispatcher_abortMerge (repository (props this))),
             Settled (Dispatcher_abortMerge (repository (props this))) Rejected], Rejected)"
    using n by (simp add: onCancel_def await_def)
  ultimately show ?thesis by blast
qed

theorem onCancel_without_resolved_witness:
  "getUnmergedFiles (dialogWith [file_a, file_c]) = [file_a]
   \<and> WorkingDirectoryFileChange.status file_a \<noteq> Resolved
   \<and> onCancel (dialogWith [file_a, file_c]) Fulfilled =
       ([Called (Dispatcher_abortMerge repo), Settled (Dispatcher_abortMerge repo) Fulfilled,
         Called Props_onDismissed], Fulfilled)"
proof -
  have g: "getUnmergedFiles (dialogWith [file_a, file_c]) = [file_a]"
    by (simp add: getUnmergedFiles_def scenario_defs)
  have s: "WorkingDirectoryFileChange.status file_a \<noteq> Resolved"
    by (simp add: file_a_def)
  have h: "\<forall>f \<in> set (getUnmergedFiles (dialogWith [file_a, file_c])).
             WorkingDirectoryFileChange.status f \<noteq> Resolved"
    using g s by simp
  have r: "repository (props (dialogWith [file_a, file_c])) = repo"
    by (simp add: dialogWith_def propsWith_def mount_def)
  show ?thesis
    using onCancel_without_resolved [OF h] g s r by simp
qed

text \<open>
  C3. When at least one unmerged file has the status \<^verbatim>\<open>Resolved\<close>, \<^verbatim>\<open>onCancel\<close> does
  not call \<^verbatim>\<open>abortMerge\<close>: it dismisses the dialog and then asks for the abort-merge
  popup, handing over the repository and the names of the current and the comparison
  branch.
\<close>

theorem onCancel_with_resolved:
  assumes "\<exists>f \<in> set (getUnmergedFiles this). WorkingDirectoryFileChange.status f = Resolved"
  shows "onCancel this settles =
           ([Called Props_onDismissed,
             Called (Dispatcher_showPopup
               (Popup AbortMerge (repository (props this))
                  (currentBranch (props this)) (comparisonBranch (props this))))],
            Fulfilled)
         \<and> (\<forall>r. Called (Dispatcher_abortMerge r) \<notin> set (fst (onCancel this settles)))"
proof -
  have y: "list_ex (\<lambda>f. WorkingDirectoryFileChange.status f = Resolved) (getUnmergedFiles this)"
    using assms by (simp add: list_ex_iff)
  then show ?thesis by (simp add: onCancel_def)
qed

theorem onCancel_with_resolved_witness:
  "getUnmergedFiles (dialogWith [file_a, file_b]) = [file_a, file_b]
   \<and> WorkingDirectoryFileChange.status file_b = Resolved
   \<and> onCancel (dialogWith [file_a, file_b]) Fulfilled =
       ([Called Props_onDismissed,
         Called (Dispatcher_showPopup (Popup AbortMerge repo ''master'' ''feature''))],
        Fulfilled)"
proof -
  have g: "getUnmergedFiles (dialogWith [file_a, file_b]) = [file_a, file_b]"
    by (simp add: getUnmergedFiles_def scenario_defs)
  have s: "WorkingDirectoryFileChange.status file_b = Resolved"
    by (simp add: file_b_def)
  have h: "\<exists>f \<in> set (getUnmergedFiles (dialogWith [file_a, file_b])).
             WorkingDirectoryFileChange.status f = Resolved"
    using g s by simp
  have r: "repository (props (dialogWith [file_a, file_b])) = repo"
     "currentBranch (props (dialogWith [file_a, file_b])) = ''master''"
     "comparisonBranch (props (dialogWith [file_a, file_b])) = ''feature''"
    by (simp_all add: dialogWith_def propsWith_def mount_def)
  show ?thesis
    using onCancel_with_resolved [OF h, of Fulfilled] g s r by simp
qed

lemma ceiling_third: "\<lceil>(of_int m :: rat) / 3\<rceil> = (m + 2) div 3"
proof -
  define k where "k = (m + 2) div 3"
  have lo: "3 * k - 3 < m" and hi: "m \<le> 3 * k"
    unfolding k_def by presburger+
  have "(of_int (3 * k - 3) :: rat) < of_int m"
    using lo by (simp only: of_int_less_iff)
  then have a: "(of_int k :: rat) - 1 < of_int m / 3" by simp
  have "(of_int m :: rat) \<le> of_int (3 * k)"
    using hi by (simp only: of_int_le_iff)
  then have b: "(of_int m :: rat) / 3 \<le> of_int k" by simp
  have "\<lceil>(of_int m :: rat) / 3\<rceil> = k"
    using a b by (simp add: ceiling_eq_iff)
  then show ?thesis by (simp add: k_def)
qed

lemma roundHalfEven_of_int: "roundHalfEven (of_int n) = n"
  by (simp add: roundHalfEven_def)

lemma roundHalfEven_near: "\<bar>of_int (roundHalfEven y) - y\<bar> \<le> 1 / 2"
proof -
  have "of_int \<lfloor>y\<rfloor> \<le> y" and "y < of_int \<lfloor>y\<rfloor> + 1"
    by linarith+
  then show ?thesis
    by (simp add: roundHalfEven_def Let_def)
qed

lemma exponent_below_one: "a < 1 \<Longrightarrow> exponent a \<le> - 1"
proof -
  assume a: "a < 1"
  show ?thesis
  proof (cases "find (\<lambda>k. 1 \<le> a * 2 ^ k) [1..<1023]")
    case None
    then show ?thesis using a by (simp add: exponent_def)
  next
    case (Some k)
    then have "k \<in> set [1..<1023]"
      by (auto simp add: find_Some_iff in_set_conv_nth simp del: upt_Suc)
    then have "1 \<le> k" by simp
    then show ?thesis using a Some by (simp add: exponent_def)
  qed
qed

lemma exponent_small: "0 < a \<Longrightarrow> a < 2 ^ 52 \<Longrightarrow> exponent a \<le> 51"
proof (cases "1 \<le> a")
  case True
  assume "a < 2 ^ 52"
  then have "\<lfloor>a\<rfloor> < 2 ^ 52"
    by (simp add: floor_less_iff)
  moreover have "0 < \<lfloor>a\<rfloor>" using True by simp
  ultimately have "bitlen \<lfloor>a\<rfloor> \<le> 52"
    by (simp add: bitlen_le_iff_power)
  then show ?thesis using True by (simp add: exponent_def)
next
  case False
  then have "exponent a \<le> - 1" by (simp add: exponent_below_one)
  then show ?thesis by simp
qed

lemma ulp_small:
  assumes "0 < a" "a < 2 ^ 52"
  shows "\<exists>j. 1 \<le> j \<and> pow2 (exponent a - 52) = 1 / 2 ^ j"
proof -
  have e: "exponent a \<le> 51" using assms by (rule exponent_small)
  then have "pow2 (exponent a - 52) = 1 / 2 ^ nat (52 - exponent a)"
    by (simp add: pow2_def)
  moreover have "1 \<le> nat (52 - exponent a)" using e by simp
  ultimately show ?thesis by blast
qed

lemma toDouble_near:
  assumes "0 < x" "x < 2 ^ 52"
  shows "\<bar>toDouble x - x\<bar> \<le> 1 / 4"
proof -
  obtain j where j: "1 \<le> j" and u: "pow2 (exponent x - 52) = 1 / 2 ^ j"
    using ulp_small [OF assms] by blast
  define u where "u = (1::rat) / 2 ^ j"
  have upos: "0 < u" by (simp add: u_def)
  have "(2::rat) ^ 1 \<le> 2 ^ j" using j by (intro power_increasing) simp_all
  then have uhalf: "u \<le> 1 / 2" by (simp add: u_def field_simps)
  have td: "toDouble x = of_int (roundHalfEven (x / u)) * u"
    using assms(1) u by (simp add: toDouble_def Let_def u_def)
  have "\<bar>of_int (roundHalfEven (x / u)) - x / u\<bar> \<le> 1 / 2"
    by (rule roundHalfEven_near)
  then have "\<bar>of_int (roundHalfEven (x / u)) - x / u\<bar> * u \<le> 1 / 2 * u"
    using upos by (intro mult_right_mono) simp_all
  moreover have "\<bar>of_int (roundHalfEven (x / u)) - x / u\<bar> * u =
      \<bar>of_int (roundHalfEven (x / u)) * u - x\<bar>"
  proof -
    have "\<bar>of_int (roundHalfEven (x / u)) - x / u\<bar> * u =
        \<bar>(of_int (roundHalfEven (x / u)) - x / u) * u\<bar>"
      using upos by (simp add: abs_mult)
    also have "(of_int (roundHalfEven (x / u)) - x / u) * u =
        of_int (roundHalfEven (x / u)) * u - x"
      using upos by (simp add: field_simps)
    finally show ?thesis .
  qed
  ultimately have "\<bar>toDouble x - x\<bar> \<le> 1 / 2 * u" by (simp add: td)
  also have "\<dots> \<le> 1 / 4" using uhalf by simp
  finally show ?thesis .
qed

lemma toDouble_of_int:
  assumes "0 < k" "k < 2 ^ 52"
  shows "toDouble (of_int k) = of_int k"
proof -
  have p: "(0::rat) < of_int k" using assms(1) by simp
  have b: "(of_int k :: rat) < 2 ^ 52"
    using assms(2) by (metis of_int_less_iff of_int_numeral of_int_power)
  obtain j where u: "pow2 (exponent (of_int k) - 52) = 1 / 2 ^ j"
    using ulp_small [OF p b] by blast
  have "(of_int k :: rat) / (1 / 2 ^ j) = of_int (k * 2 ^ j)" by simp
  then have "roundHalfEven (of_int k / (1 / 2 ^ j)) = k * 2 ^ j"
    by (simp only: roundHalfEven_of_int)
  then show ?thesis
    using p u by (simp add: toDouble_def Let_def)
qed

lemma calculateConflicts_safe:
  assumes "0 \<le> m" "m < 3 * 2 ^ 52"
  shows "calculateConflicts m = (m + 2) div 3"
proof (cases "m = 0")
  case True
  then show ?thesis by (simp add: calculateConflicts_def toDouble_def)
next
  case False
  then have mpos: "0 < m" using assms(1) by simp
  define k where "k = m div 3"
  define j where "j = m mod 3"
  have m: "m = 3 * k + j" by (simp add: k_def j_def)
  have jr: "0 \<le> j" "j < 3" by (simp_all add: j_def)
  have kb: "0 \<le> k" "k < 2 ^ 52" using assms by (simp_all add: k_def)
  have x: "(of_int m :: rat) / 3 = of_int k + of_int j / 3"
    by (simp add: m)
  show ?thesis
  proof (cases "j = 0")
    case True
    then have kpos: "0 < k" using mpos m by simp
    have "toDouble (of_int m / 3) = of_int k"
      using True x toDouble_of_int [OF kpos kb(2)] by simp
    moreover have "(m + 2) div 3 = k" using True m by simp
    ultimately show ?thesis by (simp add: calculateConflicts_def)
  next
    case False
    then have j12: "j = 1 \<or> j = 2" using jr by linarith
    have xpos: "(0::rat) < of_int m / 3" using mpos by simp
    have "(of_int m :: rat) < of_int (3 * 2 ^ 52)"
      using assms(2) by (simp only: of_int_less_iff)
    then have xb: "(of_int m :: rat) / 3 < 2 ^ 52" by simp
    define r where "r = toDouble (of_int m / 3)"
    define t where "t = (of_int j :: rat) / 3"
    have "\<bar>toDouble (of_int m / 3) - of_int m / 3\<bar> \<le> 1 / 4"
      by (rule toDouble_near [OF xpos xb])
    then have near: "\<bar>r - (of_int k + t)\<bar> \<le> 1 / 4"
      by (simp only: r_def t_def x)
    have t12: "t = 1 / 3 \<or> t = 2 / 3"
      using j12 by (auto simp add: t_def)
    have tb: "1 / 3 \<le> t" "t \<le> 2 / 3"
      using t12 by auto
    have lo: "of_int k < r"
      using near tb by linarith
    have hi: "r \<le> of_int k + 1"
      using near tb by linarith
    have "\<lceil>r\<rceil> = k + 1"
      using lo hi by (simp add: ceiling_eq_iff)
    then have "\<lceil>toDouble (of_int m / 3)\<rceil> = k + 1"
      by (simp only: r_def)
    moreover have "(m + 2) div 3 = k + 1" using j12 m by auto
    ultimately show ?thesis by (simp add: calculateConflicts_def)
  qed
qed

text \<open>
  C4, as the specification states it: for every non-negative integer marker count
  \<^verbatim>\<open>calculateConflicts\<close> returns the ceiling of a third of it. The count
  \<open>3 * 2 ^ 52 + 4 = 13510798882111492\<close> is a double; its third lies in the binade
  where doubles are the integers, the division rounds it down to
  \<open>4503599627370497\<close>, and that is what \<^verbatim>\<open>Math.ceil\<close> returns, one less than the
  ceiling of the third.
\<close>

theorem calculateConflicts_counterexample:
  "(13510798882111492::int) = 3 * 2 ^ 52 + 4
   \<and> toDouble 13510798882111492 = 13510798882111492
   \<and> calculateConflicts 13510798882111492 = 4503599627370497
   \<and> \<lceil>(13510798882111492::rat) / 3\<rceil> = 4503599627370498"
proof -
  have a: "(13510798882111492::int) = 3 * 2 ^ 52 + 4" by simp
  have b: "toDouble 13510798882111492 = 13510798882111492" by code_simp
  have c: "calculateConflicts 13510798882111492 = 4503599627370497" by code_simp
  have d: "\<lceil>(13510798882111492::rat) / 3\<rceil> = 4503599627370498" by code_simp
  from a b c d show ?thesis by blast
qed

text \<open>
  C4, amended. For every non-negative integer marker count below \<open>3 * 2 ^ 52\<close> (a range
  that holds every integer a number counts exactly, those up to \<open>2 ^ 53\<close>),
  \<^verbatim>\<open>calculateConflicts\<close> returns the ceiling of a third of the count: the least integer
  whose triple reaches the count, which is \<open>(m + 2) div 3\<close>. It maps 3 to 1, 4 to 2,
  6 to 2 and 7 to 3, and a positive count never gives zero conflicts.
\<close>

theorem calculateConflicts_ceiling_below_bound:
  assumes "0 \<le> m" and "m < 3 * 2 ^ 52"
  shows "calculateConflicts m = \<lceil>(of_int m :: rat) / 3\<rceil>
   \<and> calculateConflicts m = (m + 2) div 3
   \<and> m \<le> 3 * calculateConflicts m \<and> 3 * calculateConflicts m < m + 3
   \<and> calculateConflicts 3 = 1 \<and> calculateConflicts 4 = 2
   \<and> calculateConflicts 6 = 2 \<and> calculateConflicts 7 = 3
   \<and> (0 < m \<longrightarrow> 0 < calculateConflicts m)"
proof -
  have eq: "calculateConflicts n = (n + 2) div 3" if "0 \<le> n" and "n < 3 * 2 ^ 52" for n
    using that by (rule calculateConflicts_safe)
  have e: "calculateConflicts m = (m + 2) div 3"
    using assms by (rule eq)
  have v: "calculateConflicts 3 = 1" "calculateConflicts 4 = 2"
    "calculateConflicts 6 = 2" "calculateConflicts 7 = 3"
    by (simp_all add: eq)
  have "m \<le> 3 * ((m + 2) div 3)" by presburger
  moreover have "3 * ((m + 2) div 3) < m + 3" by presburger
  moreover have "0 < m \<longrightarrow> 0 < (m + 2) div 3" by presburger
  ultimately show ?thesis using e v by (simp add: ceiling_third)
qed

theorem calculateConflicts_ceiling_below_bound_witness:
  "(0::int) \<le> 7 \<and> (7::int) < 3 * 2 ^ 52 \<and> calculateConflicts 7 = \<lceil>(7::rat) / 3\<rceil>
   \<and> calculateConflicts 7 = 3 \<and> 0 < calculateConflicts 7"
proof -
  have a: "(0::int) \<le> 7" by simp
  have b: "(7::int) < 3 * 2 ^ 52" by simp
  show ?thesis
    using calculateConflicts_ceiling_below_bound [OF a b] a b by simp
qed

text \<open>
  C5. \<^verbatim>\<open>getUnmergedFiles\<close> returns exactly the files of the snapshot whose status is
  \<^verbatim>\<open>Resolved\<close> or \<^verbatim>\<open>Conflicted\<close>, each as often as the snapshot holds it and no other
  file, in the order of the snapshot.
\<close>

theorem getUnmergedFiles_exact:
  "mset (getUnmergedFiles this) =
     filter_mset
       (\<lambda>f. WorkingDirectoryFileChange.status f = Resolved \<or>
            WorkingDirectoryFileChange.status f = Conflicted)
       (mset (files (status (props this))))
   \<and> set (getUnmergedFiles this) =
       {f. f \<in> set (files (status (props this))) \<and>
           (WorkingDirectoryFileChange.status f = Resolved \<or>
            WorkingDirectoryFileChange.status f = Conflicted)}
   \<and> subseq (getUnmergedFiles this) (files (status (props this)))"
proof -
  have p: "(\<lambda>f. WorkingDirectoryFileChange.status f = Conflicted \<or>
                WorkingDirectoryFileChange.status f = Resolved) =
           (\<lambda>f. WorkingDirectoryFileChange.status f = Resolved \<or>
                WorkingDirectoryFileChange.status f = Conflicted)"
    by auto
  have a: "mset (getUnmergedFiles this) =
     filter_mset
       (\<lambda>f. WorkingDirectoryFileChange.status f = Resolved \<or>
            WorkingDirectoryFileChange.status f = Conflicted)
       (mset (files (status (props this))))"
    by (simp add: getUnmergedFiles_def p)
  have b: "set (getUnmergedFiles this) =
       {f. f \<in> set (files (status (props this))) \<and>
           (WorkingDirectoryFileChange.status f = Resolved \<or>
            WorkingDirectoryFileChange.status f = Conflicted)}"
    by (auto simp add: getUnmergedFiles_def)
  have c: "subseq (getUnmergedFiles this) (files (status (props this)))"
    by (simp add: getUnmergedFiles_def)
  from a b c show ?thesis by blast
qed

text \<open>
  C6. \<^verbatim>\<open>onSubmit\<close> calls \<^verbatim>\<open>createMergeCommit\<close> and waits for its promise; only after
  the promise is fulfilled it switches the repository to the changes section, and only
  then it dismisses the dialog. In every run the calls made are an initial segment of
  finalize, navigate, dismiss: no other order occurs. (A rejected promise ends the run
  after the first call.)
\<close>

theorem onSubmit_order:
  "onSubmit this Fulfilled =
     ([Called (Dispatcher_createMergeCommit (repository (props this)) (files (status (props this)))),
       Settled (Dispatcher_createMergeCommit (repository (props this)) (files (status (props this))))
         Fulfilled,
       Called (Dispatcher_changeRepositorySection (repository (props this)) Changes),
       Called Props_onDismissed], Fulfilled)
   \<and> onSubmit this Rejected =
     ([Called (Dispatcher_createMergeCommit (repository (props this)) (files (status (props this)))),
       Settled (Dispatcher_createMergeCommit (repository (props this)) (files (status (props this))))
         Rejected], Rejected)
   \<and> prefix (calls (fst (onSubmit this settles)))
       [Dispatcher_createMergeCommit (repository (props this)) (files (status (props this))),
        Dispatcher_changeRepositorySection (repository (props this)) Changes,
        Props_onDismissed]"
  by (cases settles) (simp_all add: onSubmit_def await_def)

text \<open>
  C7. A generic dismiss action (not the commit button, not the cancel button) triggers
  no operation of the merge: the dialog element is rendered with
  \<^verbatim>\<open>dismissable={false}\<close>, so the action reaches no handler, and neither
  \<^verbatim>\<open>createMergeCommit\<close> nor \<^verbatim>\<open>abortMerge\<close> is called, whatever the snapshot.
\<close>

theorem genericDismiss_triggers_no_merge:
  "genericDismiss this settles = ([], Fulfilled)
   \<and> (\<forall>r fs. Called (Dispatcher_createMergeCommit r fs)
               \<notin> set (fst (genericDismiss this settles)))
   \<and> (\<forall>r. Called (Dispatcher_abortMerge r) \<notin> set (fst (genericDismiss this settles)))"
proof -
  have "dialog_dismissable (render this) = False"
    by (simp add: render_def Let_def)
  then have "genericDismiss this settles = ([], Fulfilled)"
    by (simp add: genericDismiss_def Let_def)
  then show ?thesis by simp
qed

text \<open>
  The flag is what keeps the merge untouched: the handler the element carries for a
  dismissal is the cancel handler.
\<close>

lemma dismissal_handler_is_onCancel:
  "fire this (dialog_onDismissed (render this)) settles = onCancel this settles"
  by (simp add: render_def Let_def)

lemma props_afterUpdates: "props (afterUpdates p ps) = last (p # ps)"
proof -
  have "\<And>this. props (foldl receiveProps this ps) = last (props this # ps)"
    by (induction ps) (simp_all add: receiveProps_def)
  then show ?thesis by (simp add: afterUpdates_def mount_def)
qed

lemma resolved_among_unmerged:
  "list_ex (\<lambda>f. WorkingDirectoryFileChange.status f = Resolved) (getUnmergedFiles this) =
   list_ex (\<lambda>f. WorkingDirectoryFileChange.status f = Resolved) (files (status (props this)))"
  by (auto simp add: getUnmergedFiles_def list_ex_iff)

lemma cancelBranch_onCancel:
  "cancelBranch (fst (onCancel this settles)) =
     Some (if list_ex (\<lambda>f. WorkingDirectoryFileChange.status f = Resolved)
                (files (status (props this)))
           then ConfirmationDetour else DirectAbort)"
  by (cases settles)
     (simp_all add: onCancel_def await_def cancelBranch_def resolved_among_unmerged)

text \<open>
  C8. The branch \<^verbatim>\<open>onCancel\<close> takes is decided by the snapshot in \<^verbatim>\<open>this.props\<close> when
  it runs: two runs that see the same current snapshot take the same branch, whatever
  props the dialogs were opened with, whatever updates came before, and however the
  awaited promise settles. The branch is the confirmation detour exactly when the
  current snapshot (the last props handed over) holds a resolved file.
\<close>

theorem onCancel_branch_from_current_snapshot:
  assumes "status (props (afterUpdates p1 ps1)) = status (props (afterUpdates p2 ps2))"
  shows "cancelBranch (fst (onCancel (afterUpdates p1 ps1) s1)) =
           cancelBranch (fst (onCancel (afterUpdates p2 ps2) s2))
         \<and> cancelBranch (fst (onCancel (afterUpdates p1 ps1) s1)) =
           Some (if list_ex (\<lambda>f. WorkingDirectoryFileChange.status f = Resolved)
                      (files (status (last (p1 # ps1))))
                 then ConfirmationDetour else DirectAbort)"
  using assms by (simp add: cancelBranch_onCancel props_afterUpdates)

theorem onCancel_branch_from_current_snapshot_witness:
  "status (props (afterUpdates (propsWith [file_a]) [propsWith [file_b]])) =
     status (props (afterUpdates (propsWith [file_b]) []))
   \<and> cancelBranch (fst (onCancel (afterUpdates (propsWith [file_a]) []) Fulfilled)) =
       Some DirectAbort
   \<and> cancelBranch (fst (onCancel (afterUpdates (propsWith [file_a]) [propsWith [file_b]]) Fulfilled)) =
       Some ConfirmationDetour
   \<and> cancelBranch (fst (onCancel (afterUpdates (propsWith [file_b]) []) Rejected)) =
       Some ConfirmationDetour"
proof -
  have h: "status (props (afterUpdates (propsWith [file_a]) [propsWith [file_b]])) =
     status (props (afterUpdates (propsWith [file_b]) []))"
    by (simp add: props_afterUpdates propsWith_def)
  have d: "cancelBranch (fst (onCancel (afterUpdates (propsWith [file_a]) []) Fulfilled)) =
       Some DirectAbort"
    by (simp add: cancelBranch_onCancel props_afterUpdates propsWith_def file_a_def)
  have l: "files (status (last (propsWith [file_a] # [propsWith [file_b]]))) = [file_b]"
    by (simp add: propsWith_def)
  have r: "WorkingDirectoryFileChange.status file_b = Resolved"
    by (simp add: file_b_def)
  note t = onCancel_branch_from_current_snapshot [OF h, of Fulfilled Rejected]
  have u: "cancelBranch
       (fst (onCancel (afterUpdates (propsWith [file_a]) [propsWith [file_b]]) Fulfilled)) =
       Some ConfirmationDetour"
    using conjunct2 [OF t] l r by simp
  have v: "cancelBranch (fst (onCancel (afterUpdates (propsWith [file_b]) []) Rejected)) =
       Some ConfirmationDetour"
    using conjunct1 [OF t] u by simp
  from h d u v show ?thesis by blast
qed

lemma digit_value: "d < 10 \<Longrightarrow> (of_char (''0123456789'' ! d) :: nat) - 48 = d"
proof -
  assume "d < 10"
  then have "d \<in> set [0..<10]" by simp
  then show ?thesis by (auto simp add: upt_rec)
qed

lemma readDecimal_decimal: "readDecimal (decimal n) = n"
proof (induction n rule: decimal.induct)
  case (1 n)
  show ?case
  proof (cases "n < 10")
    case True
    then show ?thesis
      by (simp add: decimal.simps [of n] readDecimal_def digit_value)
  next
    case False
    have "readDecimal (decimal n) = 10 * readDecimal (decimal (n div 10)) + n mod 10"
      using False by (simp add: decimal.simps [of n] readDecimal_def digit_value)
    then show ?thesis using 1 False by simp
  qed
qed

text \<open>
  C9. The summary label is \<^verbatim>\<open>1 conflicted file\<close> exactly when the count is 1, and
  otherwise the decimal digits of the count followed by \<^verbatim>\<open> conflicted files\<close>. The
  count \<^verbatim>\<open>render\<close> passes is the number of unmerged files, so a snapshot with two
  unmerged files (one conflicted, one resolved) is labelled \<^verbatim>\<open>2 conflicted files\<close>.
\<close>

theorem summary_label:
  "(n = 1 \<longrightarrow> renderUnmergedFilesSummary n = ''1 conflicted file'')
   \<and> (n \<noteq> 1 \<longrightarrow> renderUnmergedFilesSummary n = decimal n @ '' conflicted files'')
   \<and> (renderUnmergedFilesSummary n = ''1 conflicted file'') = (n = 1)
   \<and> readDecimal (decimal n) = n
   \<and> content_summary (render this) = renderUnmergedFilesSummary (length (getUnmergedFiles this))
   \<and> (length (getUnmergedFiles this) = 2 \<longrightarrow> content_summary (render this) = ''2 conflicted files'')"
proof -
  have ne: "decimal n @ '' conflicted files'' \<noteq> ''1 conflicted file''"
  proof
    assume "decimal n @ '' conflicted files'' = ''1 conflicted file''"
    then have "last (decimal n @ '' conflicted files'') = last ''1 conflicted file''"
      by (rule arg_cong)
    then show False by simp
  qed
  have two: "decimal 2 = ''2''" by (simp add: decimal.simps)
  have c: "content_summary (render this) = renderUnmergedFilesSummary (length (getUnmergedFiles this))"
    by (simp add: render_def Let_def)
  show ?thesis
    using ne two c by (simp add: renderUnmergedFilesSummary_def readDecimal_decimal)
qed

theorem summary_label_witness:
  "getUnmergedFiles (dialogWith [file_a, file_b]) = [file_a, file_b]
   \<and> content_summary (render (dialogWith [file_a, file_b])) = ''2 conflicted files''
   \<and> renderUnmergedFilesSummary 1 = ''1 conflicted file''
   \<and> renderUnmergedFilesSummary 0 = ''0 conflicted files''"
proof -
  have g: "getUnmergedFiles (dialogWith [file_a, file_b]) = [file_a, file_b]"
    by (simp add: getUnmergedFiles_def scenario_defs)
  show ?thesis
    using summary_label [of 1 "dialogWith [file_a, file_b]"]
      summary_label [of 0 "dialogWith [file_a, file_b]"] g
    by (simp add: decimal.simps)
qed

text \<open>
  C10. \<^verbatim>\<open>onSubmit\<close> calls \<^verbatim>\<open>createMergeCommit\<close> once, with all files of the current
  snapshot (\<^verbatim>\<open>this.props.status.files\<close>); when the snapshot holds a file that is
  neither conflicted nor resolved, that list differs from the unmerged files.
\<close>

theorem onSubmit_passes_all_files:
  "createMergeCommit_files (fst (onSubmit this settles)) = [files (status (props this))]
   \<and> ((\<exists>f \<in> set (files (status (props this))).
          WorkingDirectoryFileChange.status f \<noteq> Conflicted \<and>
          WorkingDirectoryFileChange.status f \<noteq> Resolved)
        \<longrightarrow> createMergeCommit_files (fst (onSubmit this settles)) \<noteq> [getUnmergedFiles this])"
proof -
  have a: "createMergeCommit_files (fst (onSubmit this settles)) = [files (status (props this))]"
    by (cases settles) (simp_all add: onSubmit_def await_def)
  have b: "getUnmergedFiles this \<noteq> files (status (props this))"
    if ex: "\<exists>f \<in> set (files (status (props this))).
          WorkingDirectoryFileChange.status f \<noteq> Conflicted \<and>
          WorkingDirectoryFileChange.status f \<noteq> Resolved"
  proof
    assume "getUnmergedFiles this = files (status (props this))"
    then have "\<forall>f \<in> set (files (status (props this))).
          WorkingDirectoryFileChange.status f = Conflicted \<or>
          WorkingDirectoryFileChange.status f = Resolved"
      by (simp add: getUnmergedFiles_def filter_id_conv)
    with ex show False by blast
  qed
  show ?thesis
  proof (intro conjI impI)
    show "createMergeCommit_files (fst (onSubmit this settles)) = [files (status (props this))]"
      by (rule a)
  next
    assume "\<exists>f \<in> set (files (status (props this))).
          WorkingDirectoryFileChange.status f \<noteq> Conflicted \<and>
          WorkingDirectoryFileChange.status f \<noteq> Resolved"
    then have "getUnmergedFiles this \<noteq> files (status (props this))" by (rule b)
    then show "createMergeCommit_files (fst (onSubmit this settles)) \<noteq> [getUnmergedFiles this]"
      by (simp add: a)
  qed
qed

theorem onSubmit_passes_all_files_witness:
  "file_c \<in> set (files (status (props (dialogWith [file_a, file_b, file_c]))))
   \<and> WorkingDirectoryFileChange.status file_c = OtherStatus 0
   \<and> createMergeCommit_files (fst (onSubmit (dialogWith [file_a, file_b, file_c]) Fulfilled)) =
       [[file_a, file_b, file_c]]
   \<and> getUnmergedFiles (dialogWith [file_a, file_b, file_c]) = [file_a, file_b]"
  using onSubmit_passes_all_files [of "dialogWith [file_a, file_b, file_c]" Fulfilled]
  by (simp add: getUnmergedFiles_def scenario_defs)

end
